theory Spec2Isabelle
  imports Main "HOL-Library.Sublist"
begin

section \<open>Exceptions\<close>

text \<open>
  The exceptions the modelled code raises or lets through.
  \<^item> \<open>AuthenticationError\<close> and \<open>ResponseError\<close> are the two classes of
    \<^verbatim>\<open>gigachat.exceptions\<close>; both carry the response they were built from, of which the
    status code is kept for \<open>ResponseError\<close> (an \<open>AuthenticationError\<close> is only
    ever built from status 401).
  \<^item> \<open>TransportError\<close> is \<^verbatim>\<open>httpx.TransportError\<close>: raised by
    \<^verbatim>\<open>_check_content_type\<close>, and by the HTTP library itself when a connection fails.
  \<^item> \<open>ValidationError\<close> is what the pydantic parsers (\<^verbatim>\<open>parse_raw\<close>,
    \<^verbatim>\<open>parse_obj\<close>, the model constructors) raise on malformed input; the specification
    calls it a decode error.
  \<^item> \<open>OtherError\<close> stands for any exception of another class (the token exchanges are
    free to raise one).
\<close>

datatype error =
    AuthenticationError
  | ResponseError nat
  | TransportError
  | ValidationError
  | OtherError string

section \<open>Python helpers\<close>

text \<open>Truthiness of an \<^verbatim>\<open>Optional[str]\<close>: \<^verbatim>\<open>None\<close> and the empty string are false.\<close>

definition truthy :: "string option \<Rightarrow> bool" where
  "truthy v = (case v of None \<Rightarrow> False | Some s \<Rightarrow> s \<noteq> [])"

text \<open>
  \<^verbatim>\<open>str.partition(sep)\<close>: the text before the first occurrence of \<open>sep\<close>, the separator,
  and the text after it; the whole string and two empty strings when \<open>sep\<close> does not occur.
  Both separators used below are non-empty (Python raises on an empty one).
\<close>

fun str_partition :: "string \<Rightarrow> string \<Rightarrow> string \<times> string \<times> string" where
  "str_partition sep [] = ([], [], [])"
| "str_partition sep (c # cs) =
     (if prefix sep (c # cs) then ([], sep, drop (length sep) (c # cs))
      else (case str_partition sep cs of (a, s, b) \<Rightarrow> (c # a, s, b)))"

section \<open>Data model\<close>

datatype jvalue = JNull | JBool bool | JInt int | JString string | JArray "jvalue list"

text \<open>
  A \<^verbatim>\<open>Chat\<close> is represented by the dictionary \<^verbatim>\<open>chat.dict(exclude_none=True)\<close>
  (the class itself lives in \<^verbatim>\<open>gigachat.models\<close>).
\<close>

type_synonym chat = "string \<rightharpoonup> jvalue"

record AccessToken =
  access_token :: string
  expires_at :: int

record Token =
  tok :: string
  exp :: int

text \<open>The fields of \<^verbatim>\<open>Settings\<close> that the client reads.\<close>

record Settings =
  auth_url :: string
  credentials :: "string option"
  scope :: string
  settings_access_token :: "string option"
  model :: "string option"
  user :: "string option"
  password :: "string option"
  use_auth :: bool

record request =
  http_method :: string
  url :: string
  json :: chat
  headers :: "string \<rightharpoonup> string"

text \<open>
  A response as the code reads it: the status code, the headers (looked up by lower-case
  name, as \<^verbatim>\<open>httpx.Headers\<close> is case-insensitive), the body of a non-streaming response,
  and for a streaming one the lines that \<^verbatim>\<open>iter_lines\<close> delivers, followed by a
  transport failure when \<open>broken\<close> is set (the connection drops in mid-body).
\<close>

record response =
  status_code :: nat
  response_headers :: "string \<rightharpoonup> string"
  content :: string
  body_lines :: "string list"
  broken :: bool

section \<open>The network\<close>

text \<open>
  The servers are parameters of the model. A transport answers a request from a state
  \<open>'w\<close> of the outside world and moves it on; \<open>None\<close> is the HTTP library raising
  \<^verbatim>\<open>httpx.TransportError\<close> instead of delivering a response. The two token exchanges
  \<^verbatim>\<open>post_auth\<close> and \<^verbatim>\<open>post_token\<close> (modules of \<^verbatim>\<open>gigachat.api\<close>) are taken whole:
  each returns a token or raises.
\<close>

record 'w transport =
  send :: "request \<Rightarrow> 'w \<Rightarrow> response option \<times> 'w"
  post_auth :: "string \<Rightarrow> string \<Rightarrow> string \<Rightarrow> 'w \<Rightarrow> (error + AccessToken) \<times> 'w"
  post_token :: "string \<Rightarrow> string \<Rightarrow> 'w \<Rightarrow> (error + Token) \<times> 'w"

text \<open>
  What an HTTP client handle stands for: the requests put on the wire so far, and the
  state of the world behind it.
\<close>

record 'w net =
  sent :: "request list"
  world :: 'w

definition client_request ::
  "'w transport \<Rightarrow> request \<Rightarrow> 'w net \<Rightarrow> response option \<times> 'w net" where
  "client_request T req n =
     (case send T req (world n) of
        (r, w') \<Rightarrow> (r, n\<lparr>sent := sent n @ [req], world := w'\<rparr>))"

definition OK :: nat where "OK = 200"
definition UNAUTHORIZED :: nat where "UNAUTHORIZED = 401"

section \<open>api/post\_chat.py\<close>

definition post_chat_get_kwargs ::
  "chat \<Rightarrow> string option \<Rightarrow> string option \<Rightarrow> string option \<Rightarrow> string option \<Rightarrow> request" where
  "post_chat_get_kwargs chat access_tok client_id session_id request_id =
     (let h0 = Map.empty;
          h1 = (if truthy access_tok
                then h0(''Authorization'' \<mapsto> ''Bearer '' @ the access_tok) else h0);
          h2 = (if truthy client_id then h1(''X-Client-ID'' \<mapsto> the client_id) else h1);
          h3 = (if truthy session_id then h2(''X-Session-ID'' \<mapsto> the session_id) else h2);
          h4 = (if truthy request_id then h3(''X-Request-ID'' \<mapsto> the request_id) else h3)
      in \<lparr>http_method = ''POST'',
          url = ''/chat/completions'',
          json = chat |` (- {''stream''}),
          headers = h4\<rparr>)"

text \<open>
  \<open>PC\<close> stands for \<^verbatim>\<open>ChatCompletion(**response.json())\<close> on the body: \<open>None\<close> when
  the body does not parse or validate. The code then raises one of
  \<^verbatim>\<open>json.JSONDecodeError\<close>, \<^verbatim>\<open>TypeError\<close> and pydantic's \<^verbatim>\<open>ValidationError\<close>,
  none of them an \<open>AuthenticationError\<close>; the model has the one error
  \<open>ValidationError\<close> for the three.
\<close>

definition build_response :: "(string \<Rightarrow> 'a option) \<Rightarrow> response \<Rightarrow> error + 'a" where
  "build_response PC r =
     (if status_code r = OK then
        (case PC (content r) of None \<Rightarrow> Inl ValidationError | Some v \<Rightarrow> Inr v)
      else if status_code r = UNAUTHORIZED then Inl AuthenticationError
      else Inl (ResponseError (status_code r)))"

definition post_chat_sync ::
  "'w transport \<Rightarrow> (string \<Rightarrow> 'a option) \<Rightarrow> chat \<Rightarrow> string option \<Rightarrow> string option \<Rightarrow>
   string option \<Rightarrow> string option \<Rightarrow> 'w net \<Rightarrow> (error + 'a) \<times> 'w net" where
  "post_chat_sync T PC chat access_tok client_id session_id request_id n =
     (let kwargs = post_chat_get_kwargs chat access_tok client_id session_id request_id
      in case client_request T kwargs n of
           (None, n') \<Rightarrow> (Inl TransportError, n')
         | (Some r, n') \<Rightarrow> (build_response PC r, n'))"

definition post_chat_asyncio ::
  "'w transport \<Rightarrow> (string \<Rightarrow> 'a option) \<Rightarrow> chat \<Rightarrow> string option \<Rightarrow> string option \<Rightarrow>
   string option \<Rightarrow> string option \<Rightarrow> 'w net \<Rightarrow> (error + 'a) \<times> 'w net" where
  "post_chat_asyncio T PC chat access_tok client_id session_id request_id n =
     (let kwargs = post_chat_get_kwargs chat access_tok client_id session_id request_id
      in case client_request T kwargs n of
           (None, n') \<Rightarrow> (Inl TransportError, n')
         | (Some r, n') \<Rightarrow> (build_response PC r, n'))"

section \<open>api/stream\_chat.py\<close>

definition EVENT_STREAM :: string where
  "EVENT_STREAM = ''text/event-stream''"

definition stream_chat_get_kwargs ::
  "chat \<Rightarrow> string option \<Rightarrow> string option \<Rightarrow> string option \<Rightarrow> string option \<Rightarrow> request" where
  "stream_chat_get_kwargs chat access_tok client_id session_id request_id =
     (let h0 = [''Accept'' \<mapsto> EVENT_STREAM, ''Cache-Control'' \<mapsto> ''no-store''];
          h1 = (if truthy access_tok
                then h0(''Authorization'' \<mapsto> ''Bearer '' @ the access_tok) else h0);
          h2 = (if truthy client_id then h1(''X-Client-ID'' \<mapsto> the client_id) else h1);
          h3 = (if truthy session_id then h2(''X-Session-ID'' \<mapsto> the session_id) else h2);
          h4 = (if truthy request_id then h3(''X-Request-ID'' \<mapsto> the request_id) else h3)
      in \<lparr>http_method = ''POST'',
          url = ''/chat/completions'',
          json = chat(''stream'' \<mapsto> JBool True),
          headers = h4\<rparr>)"

text \<open>
  \<open>P\<close> stands for \<^verbatim>\<open>ChatCompletionChunk.parse_raw\<close>: \<open>None\<close> when the value does not
  parse, in which case the parser raises. The result of \<open>parse_chunk\<close> is the raised
  error, or the optional chunk the Python function returns.
\<close>

definition parse_chunk :: "(string \<Rightarrow> 'c option) \<Rightarrow> string \<Rightarrow> error + 'c option" where
  "parse_chunk P line =
     (case str_partition '': '' line of
        (name, _, v) \<Rightarrow>
          if name = ''data'' then
            (if v = ''[DONE]'' then Inr None
             else (case P v of None \<Rightarrow> Inl ValidationError | Some c \<Rightarrow> Inr (Some c)))
          else Inr None)"

definition content_type :: "response \<Rightarrow> string" where
  "content_type r =
     fst (str_partition '';''
            (case response_headers r ''content-type'' of None \<Rightarrow> [] | Some v \<Rightarrow> v))"

definition check_content_type :: "response \<Rightarrow> error + unit" where
  "check_content_type r =
     (if content_type r \<noteq> EVENT_STREAM then Inl TransportError else Inr ())"

definition check_response :: "response \<Rightarrow> error + unit" where
  "check_response r =
     (if status_code r = OK then check_content_type r
      else if status_code r = UNAUTHORIZED then Inl AuthenticationError
      else Inl (ResponseError (status_code r)))"

text \<open>
  The loop \<^verbatim>\<open>for line in response.iter_lines(): if chunk := _parse_chunk(line): yield chunk\<close>,
  run to its end: the chunks yielded, in order, and how the generator ends (\<open>None\<close>:
  it is exhausted; \<open>Some e\<close>: it raises \<open>e\<close>). A parsed chunk is an object and
  therefore truthy. The flag says whether \<^verbatim>\<open>iter_lines\<close> fails after the last line.
\<close>

fun iter_lines :: "(string \<Rightarrow> 'c option) \<Rightarrow> string list \<Rightarrow> bool \<Rightarrow> 'c list \<times> error option" where
  "iter_lines P [] brk = ([], if brk then Some TransportError else None)"
| "iter_lines P (line # rest) brk =
     (case parse_chunk P line of
        Inl e \<Rightarrow> ([], Some e)
      | Inr None \<Rightarrow> iter_lines P rest brk
      | Inr (Some c) \<Rightarrow> (case iter_lines P rest brk of (cs, t) \<Rightarrow> (c # cs, t)))"

definition stream_chat_sync ::
  "'w transport \<Rightarrow> (string \<Rightarrow> 'c option) \<Rightarrow> chat \<Rightarrow> string option \<Rightarrow> string option \<Rightarrow>
   string option \<Rightarrow> string option \<Rightarrow> 'w net \<Rightarrow> ('c list \<times> error option) \<times> 'w net" where
  "stream_chat_sync T P chat access_tok client_id session_id request_id n =
     (let kwargs = stream_chat_get_kwargs chat access_tok client_id session_id request_id
      in case client_request T kwargs n of
           (None, n') \<Rightarrow> (([], Some TransportError), n')
         | (Some r, n') \<Rightarrow>
             (case check_response r of
                Inl e \<Rightarrow> (([], Some e), n')
              | Inr _ \<Rightarrow> (iter_lines P (body_lines r) (broken r), n')))"

definition stream_chat_asyncio ::
  "'w transport \<Rightarrow> (string \<Rightarrow> 'c option) \<Rightarrow> chat \<Rightarrow> string option \<Rightarrow> string option \<Rightarrow>
   string option \<Rightarrow> string option \<Rightarrow> 'w net \<Rightarrow> ('c list \<times> error option) \<times> 'w net" where
  "stream_chat_asyncio T P chat access_tok client_id session_id request_id n =
     (let kwargs = stream_chat_get_kwargs chat access_tok client_id session_id request_id
      in case client_request T kwargs n of
           (None, n') \<Rightarrow> (([], Some TransportError), n')
         | (Some r, n') \<Rightarrow>
             (case check_response r of
                Inl e \<Rightarrow> (([], Some e), n')
              | Inr _ \<Rightarrow> (iter_lines P (body_lines r) (broken r), n')))"

section \<open>client.py\<close>

definition parse_chat ::
  "('p \<Rightarrow> chat option) \<Rightarrow> 'p \<Rightarrow> string option \<Rightarrow> error + chat" where
  \<comment> \<open>\<open>PO\<close> stands for \<^verbatim>\<open>Chat.parse_obj\<close>, which raises on an invalid payload.\<close>
  "parse_chat PO payload mdl =
     (case PO payload of
        None \<Rightarrow> Inl ValidationError
      | Some c \<Rightarrow> Inr (if truthy mdl then c(''model'' \<mapsto> JString (the mdl)) else c))"

definition build_access_token :: "Token \<Rightarrow> AccessToken" where
  "build_access_token t = \<lparr>access_token = tok t, expires_at = exp t\<rparr>"

text \<open>
  What a call does, as an observer sees it, in order: an attempt is made with the
  credential read from the \<^verbatim>\<open>token\<close> property (\<open>Call\<close>), an attempt raises
  (\<open>Failed\<close>), the token is reset, \<^verbatim>\<open>_update_token\<close> is invoked, a chunk is handed to
  the consumer of a stream (\<open>Yield\<close>).
\<close>

datatype 'c event =
    Call "string option"
  | Failed error
  | ResetToken
  | UpdateToken
  | Yield 'c

text \<open>
  The client: its settings, the field \<^verbatim>\<open>_access_token\<close>, the network behind its HTTP
  client handles, and the record of events so far. The two handles \<^verbatim>\<open>_client\<close> and
  \<^verbatim>\<open>_auth_client\<close> reach the same outside world.
\<close>

record ('w, 'c) client =
  settings :: Settings
  held_access_token :: "AccessToken option"
  net :: "'w net"
  events :: "'c event list"

definition init :: "Settings \<Rightarrow> 'w \<Rightarrow> ('w, 'c) client" where
  "init cfg w =
     \<lparr>settings = cfg,
      held_access_token =
        (if truthy (settings_access_token cfg)
         then Some \<lparr>access_token = the (settings_access_token cfg), expires_at = 0\<rparr>
         else None),
      net = \<lparr>sent = [], world = w\<rparr>,
      events = []\<rparr>"

definition token :: "('w, 'c) client \<Rightarrow> string option" where
  "token s =
     (if use_auth (settings s) \<and> held_access_token s \<noteq> None
      then Some (access_token (the (held_access_token s)))
      else None)"

definition client_use_auth :: "('w, 'c) client \<Rightarrow> bool" where
  "client_use_auth s = use_auth (settings s)"

definition check_validity_token :: "('w, 'c) client \<Rightarrow> bool" where
  "check_validity_token s = (if held_access_token s \<noteq> None then True else False)"

definition reset_token :: "('w, 'c) client \<Rightarrow> ('w, 'c) client" where
  "reset_token s = s\<lparr>held_access_token := None, events := events s @ [ResetToken]\<rparr>"

definition set_world :: "'w \<Rightarrow> ('w, 'c) client \<Rightarrow> ('w, 'c) client" where
  "set_world w s = s\<lparr>net := (net s)\<lparr>world := w\<rparr>\<rparr>"

definition update_token ::
  "'w transport \<Rightarrow> ('w, 'c) client \<Rightarrow> (error + unit) \<times> ('w, 'c) client" where
  "update_token T s =
     (let s0 = s\<lparr>events := events s @ [UpdateToken]\<rparr>; cfg = settings s0 in
      if truthy (credentials cfg) then
        (case post_auth T (auth_url cfg) (the (credentials cfg)) (scope cfg) (world (net s0)) of
           (Inl e, w') \<Rightarrow> (Inl e, set_world w' s0)
         | (Inr a, w') \<Rightarrow> (Inr (), set_world w' (s0\<lparr>held_access_token := Some a\<rparr>)))
      else if truthy (user cfg) \<and> truthy (password cfg) then
        (case post_token T (the (user cfg)) (the (password cfg)) (world (net s0)) of
           (Inl e, w') \<Rightarrow> (Inl e, set_world w' s0)
         | (Inr t, w') \<Rightarrow>
             (Inr (), set_world w' (s0\<lparr>held_access_token := Some (build_access_token t)\<rparr>)))
      else (Inr (), s0))"

text \<open>
  Invoking the closure \<^verbatim>\<open>call\<close>. Every closure the client passes to \<^verbatim>\<open>_decorator\<close> has
  the shape \<^verbatim>\<open>lambda: f.sync(self._client, ..., access_token=self.token)\<close>: it reads the
  \<^verbatim>\<open>token\<close> property when it is invoked and talks to the network; \<open>call\<close> is the
  function \<open>f\<close> of the credential and the network.
\<close>

definition attempt ::
  "(string option \<Rightarrow> 'w net \<Rightarrow> (error + 'a) \<times> 'w net) \<Rightarrow> ('w, 'c) client \<Rightarrow>
   (error + 'a) \<times> ('w, 'c) client" where
  "attempt call s =
     (case call (token s) (net s) of
        (r, n') \<Rightarrow>
          (r, s\<lparr>net := n',
                events := events s @ Call (token s) #
                            (case r of Inl e \<Rightarrow> [Failed e] | Inr _ \<Rightarrow> [])\<rparr>))"

text \<open>The last two lines of \<^verbatim>\<open>_decorator\<close>, once authentication is known to be on.\<close>

definition update_then_call ::
  "'w transport \<Rightarrow> (string option \<Rightarrow> 'w net \<Rightarrow> (error + 'a) \<times> 'w net) \<Rightarrow> ('w, 'c) client \<Rightarrow>
   (error + 'a) \<times> ('w, 'c) client" where
  "update_then_call T call s =
     (case update_token T s of
        (Inl e, s') \<Rightarrow> (Inl e, s')
      | (Inr _, s') \<Rightarrow> attempt call s')"

definition decorator ::
  "'w transport \<Rightarrow> (string option \<Rightarrow> 'w net \<Rightarrow> (error + 'a) \<times> 'w net) \<Rightarrow> ('w, 'c) client \<Rightarrow>
   (error + 'a) \<times> ('w, 'c) client" where
  "decorator T call s =
     (if client_use_auth s then
        (if check_validity_token s then
           (case attempt call s of
              (Inr v, s1) \<Rightarrow> (Inr v, s1)
            | (Inl e, s1) \<Rightarrow>
                if e = AuthenticationError then update_then_call T call (reset_token s1)
                else (Inl e, s1))
         else update_then_call T call s)
      else attempt call s)"

definition client_chat ::
  "'w transport \<Rightarrow> ('p \<Rightarrow> chat option) \<Rightarrow> (string \<Rightarrow> 'a option) \<Rightarrow> 'p \<Rightarrow> ('w, 'c) client \<Rightarrow>
   (error + 'a) \<times> ('w, 'c) client" where
  "client_chat T PO PC payload s =
     (case parse_chat PO payload (model (settings s)) of
        Inl e \<Rightarrow> (Inl e, s)
      | Inr chat \<Rightarrow>
          decorator T (\<lambda>tk. post_chat_sync T PC chat tk None None None) s)"

text \<open>
  One pass over \<^verbatim>\<open>stream_chat.sync(self._client, chat=chat, access_token=self.token)\<close>
  that hands every chunk on to the consumer, the stream being read to its end.
\<close>

definition stream_attempt ::
  "'w transport \<Rightarrow> (string \<Rightarrow> 'c option) \<Rightarrow> chat \<Rightarrow> ('w, 'c) client \<Rightarrow>
   error option \<times> ('w, 'c) client" where
  "stream_attempt T P chat s =
     (case stream_chat_sync T P chat (token s) None None None (net s) of
        ((cs, t), n') \<Rightarrow>
          (t, s\<lparr>net := n',
                events := events s @ Call (token s) # map Yield cs @
                            (case t of Some e \<Rightarrow> [Failed e] | None \<Rightarrow> [])\<rparr>))"

definition update_then_stream ::
  "'w transport \<Rightarrow> (string \<Rightarrow> 'c option) \<Rightarrow> chat \<Rightarrow> ('w, 'c) client \<Rightarrow>
   error option \<times> ('w, 'c) client" where
  "update_then_stream T P chat s =
     (case update_token T s of
        (Inl e, s') \<Rightarrow> (Some e, s')
      | (Inr _, s') \<Rightarrow> stream_attempt T P chat s')"

text \<open>
  The generator \<^verbatim>\<open>stream\<close>, consumed to its end: how it ends (\<open>None\<close>: exhausted,
  \<open>Some e\<close>: it raises \<open>e\<close>) and the client afterwards, whose events hold the chunks
  the consumer received.
\<close>

definition stream ::
  "'w transport \<Rightarrow> ('p \<Rightarrow> chat option) \<Rightarrow> (string \<Rightarrow> 'c option) \<Rightarrow> 'p \<Rightarrow> ('w, 'c) client \<Rightarrow>
   error option \<times> ('w, 'c) client" where
  "stream T PO P payload s =
     (case parse_chat PO payload (model (settings s)) of
        Inl e \<Rightarrow> (Some e, s)
      | Inr chat \<Rightarrow>
          if client_use_auth s then
            (if check_validity_token s then
               (case stream_attempt T P chat s of
                  (None, s1) \<Rightarrow> (None, s1)
                | (Some e, s1) \<Rightarrow>
                    if e = AuthenticationError
                    then update_then_stream T P chat (reset_token s1)
                    else (Some e, s1))
             else update_then_stream T P chat s)
          else stream_attempt T P chat s)"

subsection \<open>The asynchronous client\<close>

text \<open>
  The coroutines of \<^verbatim>\<open>GigaChatAsyncClient\<close>, each \<^verbatim>\<open>await\<close> run to completion before
  the next statement: one logical call on its own, with no other task interleaved.
\<close>

definition aupdate_token ::
  "'w transport \<Rightarrow> ('w, 'c) client \<Rightarrow> (error + unit) \<times> ('w, 'c) client" where
  "aupdate_token T s =
     (let s0 = s\<lparr>events := events s @ [UpdateToken]\<rparr>; cfg = settings s0 in
      if truthy (credentials cfg) then
        (case post_auth T (auth_url cfg) (the (credentials cfg)) (scope cfg) (world (net s0)) of
           (Inl e, w') \<Rightarrow> (Inl e, set_world w' s0)
         | (Inr a, w') \<Rightarrow> (Inr (), set_world w' (s0\<lparr>held_access_token := Some a\<rparr>)))
      else if truthy (user cfg) \<and> truthy (password cfg) then
        (case post_token T (the (user cfg)) (the (password cfg)) (world (net s0)) of
           (Inl e, w') \<Rightarrow> (Inl e, set_world w' s0)
         | (Inr t, w') \<Rightarrow>
             (Inr (), set_world w' (s0\<lparr>held_access_token := Some (build_access_token t)\<rparr>)))
      else (Inr (), s0))"

definition aupdate_then_call ::
  "'w transport \<Rightarrow> (string option \<Rightarrow> 'w net \<Rightarrow> (error + 'a) \<times> 'w net) \<Rightarrow> ('w, 'c) client \<Rightarrow>
   (error + 'a) \<times> ('w, 'c) client" where
  "aupdate_then_call T acall s =
     (case aupdate_token T s of
        (Inl e, s') \<Rightarrow> (Inl e, s')
      | (Inr _, s') \<Rightarrow> attempt acall s')"

definition adecorator ::
  "'w transport \<Rightarrow> (string option \<Rightarrow> 'w net \<Rightarrow> (error + 'a) \<times> 'w net) \<Rightarrow> ('w, 'c) client \<Rightarrow>
   (error + 'a) \<times> ('w, 'c) client" where
  "adecorator T acall s =
     (if client_use_auth s then
        (if check_validity_token s then
           (case attempt acall s of
              (Inr v, s1) \<Rightarrow> (Inr v, s1)
            | (Inl e, s1) \<Rightarrow>
                if e = AuthenticationError then aupdate_then_call T acall (reset_token s1)
                else (Inl e, s1))
         else aupdate_then_call T acall s)
      else attempt acall s)"

definition client_achat ::
  "'w transport \<Rightarrow> ('p \<Rightarrow> chat option) \<Rightarrow> (string \<Rightarrow> 'a option) \<Rightarrow> 'p \<Rightarrow> ('w, 'c) client \<Rightarrow>
   (error + 'a) \<times> ('w, 'c) client" where
  "client_achat T PO PC payload s =
     (case parse_chat PO payload (model (settings s)) of
        Inl e \<Rightarrow> (Inl e, s)
      | Inr chat \<Rightarrow>
          adecorator T (\<lambda>tk. post_chat_asyncio T PC chat tk None None None) s)"

definition astream_attempt ::
  "'w transport \<Rightarrow> (string \<Rightarrow> 'c option) \<Rightarrow> chat \<Rightarrow> ('w, 'c) client \<Rightarrow>
   error option \<times> ('w, 'c) client" where
  "astream_attempt T P chat s =
     (case stream_chat_asyncio T P chat (token s) None None None (net s) of
        ((cs, t), n') \<Rightarrow>
          (t, s\<lparr>net := n',
                events := events s @ Call (token s) # map Yield cs @
                            (case t of Some e \<Rightarrow> [Failed e] | None \<Rightarrow> [])\<rparr>))"

definition aupdate_then_stream ::
  "'w transport \<Rightarrow> (string \<Rightarrow> 'c option) \<Rightarrow> chat \<Rightarrow> ('w, 'c) client \<Rightarrow>
   error option \<times> ('w, 'c) client" where
  "aupdate_then_stream T P chat s =
     (case aupdate_token T s of
        (Inl e, s') \<Rightarrow> (Some e, s')
      | (Inr _, s') \<Rightarrow> astream_attempt T P chat s')"

definition astream ::
  "'w transport \<Rightarrow> ('p \<Rightarrow> chat option) \<Rightarrow> (string \<Rightarrow> 'c option) \<Rightarrow> 'p \<Rightarrow> ('w, 'c) client \<Rightarrow>
   error option \<times> ('w, 'c) client" where
  "astream T PO P payload s =
     (case parse_chat PO payload (model (settings s)) of
        Inl e \<Rightarrow> (Some e, s)
      | Inr chat \<Rightarrow>
          if client_use_auth s then
            (if check_validity_token s then
               (case astream_attempt T P chat s of
                  (None, s1) \<Rightarrow> (None, s1)
                | (Some e, s1) \<Rightarrow>
                    if e = AuthenticationError
                    then aupdate_then_stream T P chat (reset_token s1)
                    else (Some e, s1))
             else aupdate_then_stream T P chat s)
          else astream_attempt T P chat s)"

section \<open>Reading the record of events\<close>

fun is_call :: "'c event \<Rightarrow> bool" where
  "is_call (Call _) = True"
| "is_call _ = False"

fun is_reset :: "'c event \<Rightarrow> bool" where
  "is_reset ResetToken = True"
| "is_reset _ = False"

fun is_update :: "'c event \<Rightarrow> bool" where
  "is_update UpdateToken = True"
| "is_update _ = False"

fun is_yield :: "'c event \<Rightarrow> bool" where
  "is_yield (Yield _) = True"
| "is_yield _ = False"

definition attempts :: "'c event list \<Rightarrow> nat" where
  "attempts es = length (filter is_call es)"

definition resets :: "'c event list \<Rightarrow> nat" where
  "resets es = length (filter is_reset es)"

definition refreshes :: "'c event list \<Rightarrow> nat" where
  "refreshes es = length (filter is_update es)"

text \<open>The events a call added to the record: those of \<open>s'\<close> after the ones of \<open>s\<close>.\<close>

definition new_events :: "('w, 'c) client \<Rightarrow> ('w, 'c) client \<Rightarrow> 'c event list" where
  "new_events s s' = drop (length (events s)) (events s')"


section \<open>Concrete servers and clients\<close>

text \<open>
  Inputs for the examples below. The world of a scripted transport is the number of
  requests it has answered; it answers the \<open>k\<close>-th request with the \<open>k\<close>-th entry of
  its script (and fails to connect once the script is used up), and every OAuth exchange
  with the same outcome.
\<close>

definition scripted :: "response option list \<Rightarrow> error + AccessToken \<Rightarrow> nat transport" where
  "scripted rs a =
     \<lparr>send = (\<lambda>req k. (if k < length rs then rs ! k else None, Suc k)),
      post_auth = (\<lambda>u c sc k. (a, k)),
      post_token = (\<lambda>u p k. (Inl (OtherError ''no password grant''), k))\<rparr>"

definition event_stream :: "string list \<Rightarrow> response" where
  "event_stream ls =
     \<lparr>status_code = 200,
      response_headers = [''content-type'' \<mapsto> ''text/event-stream''],
      content = [],
      body_lines = ls,
      broken = False\<rparr>"

definition json_reply :: "nat \<Rightarrow> string \<Rightarrow> response" where
  "json_reply st b =
     \<lparr>status_code = st,
      response_headers = [''content-type'' \<mapsto> ''application/json''],
      content = b,
      body_lines = [],
      broken = False\<rparr>"

text \<open>A chunk parser that knows two records, and a completion parser that takes any
  non-empty body.\<close>

definition demo_parse_raw :: "string \<Rightarrow> nat option" where
  "demo_parse_raw v =
     (if v = ''{id:1}'' then Some 1 else if v = ''{id:2}'' then Some 2 else None)"

definition demo_completion :: "string \<Rightarrow> string option" where
  "demo_completion b = (if b = [] then None else Some b)"

definition demo_chat :: chat where
  "demo_chat = [''model'' \<mapsto> JString ''GigaChat'']"

definition demo_settings :: Settings where
  "demo_settings =
     \<lparr>auth_url = ''https://auth.example/oauth'',
      credentials = Some ''secret'',
      scope = ''GIGACHAT_API_PERS'',
      settings_access_token = Some ''old'',
      model = None,
      user = None,
      password = None,
      use_auth = True\<rparr>"

definition fresh_token :: AccessToken where
  "fresh_token = \<lparr>access_token = ''new'', expires_at = 1700000000\<rparr>"

definition demo_client :: "(nat, nat) client" where
  "demo_client = init demo_settings 0"

definition demo_parse_obj :: "chat \<Rightarrow> chat option" where
  "demo_parse_obj p = Some p"

definition unauthorized :: response where
  "unauthorized = json_reply 401 []"

text \<open>The non-streaming call of \<^verbatim>\<open>chat\<close> as a closure over the credential.\<close>

definition chat_call ::
  "nat transport \<Rightarrow> string option \<Rightarrow> nat net \<Rightarrow> (error + string) \<times> nat net" where
  "chat_call T tk = post_chat_sync T demo_completion demo_chat tk None None None"

text \<open>A server that rejects the held token once and accepts the refreshed one.\<close>

definition expired_token_server :: "nat transport" where
  "expired_token_server =
     scripted [Some unauthorized, Some (json_reply 200 ''hello'')] (Inr fresh_token)"


text \<open>A server that rejects the held token while the token endpoint is down.\<close>

definition broken_auth_server :: "nat transport" where
  "broken_auth_server =
     scripted [Some unauthorized, Some (json_reply 200 ''hello'')] (Inl (ResponseError 500))"

text \<open>A server that answers with an internal error.\<close>

definition failing_server :: "nat transport" where
  "failing_server =
     scripted [Some (json_reply 500 ''oops''), Some (json_reply 200 ''hello'')] (Inr fresh_token)"

text \<open>A server that accepts the request.\<close>

definition accepting_server :: "nat transport" where
  "accepting_server = scripted [Some (json_reply 200 ''hello'')] (Inr fresh_token)"

text \<open>Streaming servers: one that streams two chunks and the sentinel, one that does so
  after rejecting the held token, one whose stream breaks after the first chunk, and one
  that answers with a JSON document.\<close>

definition two_chunks :: response where
  "two_chunks = event_stream [''data: {id:1}'', ''data: {id:2}'', ''data: [DONE]'']"

definition streaming_server :: "nat transport" where
  "streaming_server = scripted [Some two_chunks] (Inr fresh_token)"

definition expired_streaming_server :: "nat transport" where
  "expired_streaming_server = scripted [Some unauthorized, Some two_chunks] (Inr fresh_token)"

definition breaking_server :: "nat transport" where
  "breaking_server =
     scripted [Some ((event_stream [''data: {id:1}''])\<lparr>broken := True\<rparr>), Some two_chunks]
       (Inr fresh_token)"

definition wrong_type_server :: "nat transport" where
  "wrong_type_server = scripted [Some (json_reply 200 ''{}'')] (Inr fresh_token)"

text \<open>The Authorization headers of the requests on the wire.\<close>

definition authorizations :: "'w net \<Rightarrow> string option list" where
  "authorizations n = map (\<lambda>r. headers r ''Authorization'') (sent n)"

text \<open>The same client with authentication switched off; the token stays held.\<close>

definition anonymous_client :: "(nat, nat) client" where
  "anonymous_client = init (demo_settings\<lparr>use_auth := False\<rparr>) 0"

section \<open>The decoder of the event stream\<close>

lemma parse_chunk_done: "parse_chunk P ''data: [DONE]'' = Inr None"
  by (simp add: parse_chunk_def)

lemma parse_chunk_error: "parse_chunk P line = Inl e \<Longrightarrow> e = ValidationError"
  by (auto simp: parse_chunk_def split: prod.splits if_splits option.splits)

text \<open>Decoding a body in two parts: the second part is reached only if the first raises
  nothing.\<close>

lemma iter_lines_append:
  "iter_lines P (xs @ ys) brk =
     (case iter_lines P xs False of
        (cs, Some e) \<Rightarrow> (cs, Some e)
      | (cs, None) \<Rightarrow> (case iter_lines P ys brk of (ds, t) \<Rightarrow> (cs @ ds, t)))"
  by (induction xs) (auto split: sum.splits option.splits prod.splits)

lemma iter_lines_error:
  "iter_lines P ls brk = (cs, Some e) \<Longrightarrow> e = ValidationError \<or> e = TransportError"
  by (induction ls arbitrary: cs)
    (auto split: sum.splits option.splits prod.splits if_splits dest: parse_chunk_error)

text \<open>
  C2, as the code has it. A data line whose value is the sentinel \<^verbatim>\<open>[DONE]\<close> yields no
  chunk and raises nothing, and the loop over the lines goes on: the lines after the
  sentinel are decoded like any others, so the body decodes as it would with the sentinel
  line left out. When the sentinel is the last line, the chunks are those of the lines
  before it and the sequence ends as they leave it.
\<close>

theorem sentinel_line_is_skipped:
  "parse_chunk P ''data: [DONE]'' = Inr None \<and>
   iter_lines P (pre @ ''data: [DONE]'' # post) brk = iter_lines P (pre @ post) brk \<and>
   iter_lines P (pre @ [''data: [DONE]'']) False = iter_lines P pre False"
  by (simp add: iter_lines_append parse_chunk_done split: prod.splits option.splits)

theorem sentinel_line_is_skipped_witness:
  "iter_lines demo_parse_raw [''event: x'', ''data: {id:1}'', ''data: [DONE]''] False
     = ([1], None) \<and>
   iter_lines demo_parse_raw ([''data: {id:1}''] @ ''data: [DONE]'' # [''data: {id:2}'']) False
     = ([1, 2], None)"
  using sentinel_line_is_skipped [of demo_parse_raw "[''event: x'', ''data: {id:1}'']" "[]" False]
    sentinel_line_is_skipped [of demo_parse_raw "[''data: {id:1}'']" "[''data: {id:2}'']" False]
  by (simp add: parse_chunk_def demo_parse_raw_def)

text \<open>
  C2 as stated fails: a server that sends a data line after the sentinel gets it decoded
  and yielded. Here the body is a chunk, the sentinel, and a second chunk; both chunks
  reach the caller.
\<close>

theorem chunk_after_sentinel_counterexample:
  "fst (stream_chat_sync
          (scripted
             [Some (event_stream [''data: {id:1}'', ''data: [DONE]'', ''data: {id:2}''])]
             (Inr fresh_token))
          demo_parse_raw demo_chat (Some ''old'') None None None \<lparr>sent = [], world = 0\<rparr>)
     = ([1, 2], None)"
  by (simp add: stream_chat_sync_def client_request_def scripted_def event_stream_def
      check_response_def check_content_type_def content_type_def EVENT_STREAM_def OK_def
      parse_chunk_def demo_parse_raw_def)

text \<open>
  C8. A line whose field name is \<^verbatim>\<open>data\<close> and whose value is neither the sentinel nor
  parseable makes \<^verbatim>\<open>_parse_chunk\<close> raise the parser's error. In a body whose earlier lines
  decode to the chunks \<open>cs\<close> without an error, the sequence is \<open>cs\<close> followed by that
  error, whatever lines come after: the line is not skipped and nothing more is yielded.
\<close>

theorem malformed_data_line_is_fatal:
  assumes "fst (str_partition '': '' line) = ''data''"
    and "snd (snd (str_partition '': '' line)) = v" and "v \<noteq> ''[DONE]''" and "P v = None"
    and "iter_lines P pre False = (cs, None)"
  shows "parse_chunk P line = Inl ValidationError \<and>
         iter_lines P (pre @ line # post) brk = (cs, Some ValidationError)"
proof -
  have "parse_chunk P line = Inl ValidationError"
    using assms(1-4) by (auto simp: parse_chunk_def split: prod.splits)
  then show ?thesis
    using assms(5) by (simp add: iter_lines_append)
qed

theorem malformed_data_line_is_fatal_witness:
  "iter_lines demo_parse_raw
     ([''data: {id:1}''] @ ''data: {id:'' # [''data: {id:2}'', ''data: [DONE]'']) False
     = ([1], Some ValidationError)"
proof -
  have h1: "fst (str_partition '': '' ''data: {id:'') = ''data''" by simp
  have h2: "snd (snd (str_partition '': '' ''data: {id:'')) = ''{id:''" by simp
  have h3: "''{id:'' \<noteq> ''[DONE]''" by simp
  have h4: "demo_parse_raw ''{id:'' = None" by (simp add: demo_parse_raw_def)
  have h5: "iter_lines demo_parse_raw [''data: {id:1}''] False = ([1], None)"
    by (simp add: parse_chunk_def demo_parse_raw_def)
  from malformed_data_line_is_fatal [OF h1 h2 h3 h4 h5,
      of "[''data: {id:2}'', ''data: [DONE]'']" False]
  show ?thesis by simp
qed

section \<open>The Authorization header\<close>

text \<open>
  C10. The request built for the non-streaming endpoint and the one built for the
  streaming endpoint carry an Authorization header exactly when the credential is a
  non-empty string, and then its value is \<^verbatim>\<open>Bearer\<close> followed by the credential. An
  empty string, like an absent credential, gives no header.
\<close>

theorem authorization_iff_nonempty_credential:
  "(''Authorization'' \<in> dom (headers (post_chat_get_kwargs chat tk cid sid rid))
      \<longleftrightarrow> (\<exists>t. tk = Some t \<and> t \<noteq> [])) \<and>
   (''Authorization'' \<in> dom (headers (stream_chat_get_kwargs chat tk cid sid rid))
      \<longleftrightarrow> (\<exists>t. tk = Some t \<and> t \<noteq> [])) \<and>
   (\<forall>t. tk = Some t \<and> t \<noteq> [] \<longrightarrow>
      headers (post_chat_get_kwargs chat tk cid sid rid) ''Authorization''
        = Some (''Bearer '' @ t) \<and>
      headers (stream_chat_get_kwargs chat tk cid sid rid) ''Authorization''
        = Some (''Bearer '' @ t))"
  by (auto simp: post_chat_get_kwargs_def stream_chat_get_kwargs_def truthy_def Let_def
      split: option.splits)

theorem authorization_iff_nonempty_credential_witness:
  "''Authorization'' \<notin> dom (headers (post_chat_get_kwargs demo_chat (Some []) None None None)) \<and>
   ''Authorization'' \<notin> dom (headers (stream_chat_get_kwargs demo_chat (Some []) None None None)) \<and>
   ''Authorization'' \<notin> dom (headers (post_chat_get_kwargs demo_chat None None None None)) \<and>
   headers (post_chat_get_kwargs demo_chat (Some ''new'') None None None) ''Authorization''
     = Some ''Bearer new'' \<and>
   headers (stream_chat_get_kwargs demo_chat (Some ''new'') None None None) ''Authorization''
     = Some ''Bearer new''"
  using authorization_iff_nonempty_credential [of demo_chat "Some []" None None None]
    authorization_iff_nonempty_credential [of demo_chat None None None None]
    authorization_iff_nonempty_credential [of demo_chat "Some ''new''" None None None]
  by simp

section \<open>The dispatcher\<close>

lemma update_token_facts:
  assumes "update_token T s = (ru, s2)"
  shows "events s2 = events s @ [UpdateToken]" and "settings s2 = settings s"
    and "sent (net s2) = sent (net s)"
  using assms
  by (auto simp: update_token_def set_world_def Let_def split: if_splits prod.splits sum.splits)


lemma attempt_facts:
  assumes "attempt call s = (r, s1)"
  shows "events s1 = events s @ Call (token s) # (case r of Inl e \<Rightarrow> [Failed e] | Inr _ \<Rightarrow> [])"
    and "settings s1 = settings s" and "held_access_token s1 = held_access_token s"
    and "token s1 = token s" and "r = fst (call (token s) (net s))"
  using assms by (auto simp: attempt_def token_def split: prod.splits)

lemma new_events_append [simp]: "events s' = events s @ es \<Longrightarrow> new_events s s' = es"
  by (simp add: new_events_def)

text \<open>Unfolding the concrete servers and clients, and running the client on them.\<close>

lemmas demo_defs =
  scripted_def event_stream_def json_reply_def demo_parse_raw_def demo_completion_def
  demo_chat_def demo_settings_def fresh_token_def demo_client_def demo_parse_obj_def
  unauthorized_def chat_call_def two_chunks_def authorizations_def init_def

lemmas run_defs =
  decorator_def adecorator_def update_then_call_def aupdate_then_call_def attempt_def
  update_token_def aupdate_token_def reset_token_def set_world_def token_def client_use_auth_def
  check_validity_token_def truthy_def post_chat_sync_def post_chat_asyncio_def
  client_request_def build_response_def OK_def UNAUTHORIZED_def
  attempts_def resets_def refreshes_def new_events_def Let_def

lemmas stream_defs =
  stream_def stream_attempt_def update_then_stream_def parse_chat_def stream_chat_sync_def
  check_response_def check_content_type_def content_type_def EVENT_STREAM_def parse_chunk_def

text \<open>
  C1, as the code has it. A call made with authentication on and a token held runs the
  attempt once. If it succeeds, its result is returned and nothing else happens: no
  reset, no refresh, the client is as before but for the network and the record of the
  one attempt. If it raises \<open>AuthenticationError\<close>, the token is reset and
  \<^verbatim>\<open>_update_token\<close> runs once; if that raises, its error is propagated and there is no
  second attempt; otherwise the attempt runs once more, with the client as the refresh
  left it, and its outcome, whatever it is, is the outcome of the call. In every case
  there are at most two attempts, one reset and one refresh.
\<close>

theorem retry_once_on_authentication_error:
  assumes "client_use_auth s" and "check_validity_token s"
    and "call (token s) (net s) = (r1, n1)"
  shows
    "(\<forall>v. r1 = Inr v \<longrightarrow>
        decorator T call s = (Inr v, s\<lparr>net := n1, events := events s @ [Call (token s)]\<rparr>)) \<and>
     (r1 = Inl AuthenticationError \<longrightarrow>
        (\<forall>ru s2.
           update_token T
             (s\<lparr>net := n1, held_access_token := None,
                events := events s @ [Call (token s), Failed AuthenticationError, ResetToken]\<rparr>)
             = (ru, s2) \<longrightarrow>
           events s2 =
             events s @ [Call (token s), Failed AuthenticationError, ResetToken, UpdateToken] \<and>
           (\<forall>e. ru = Inl e \<longrightarrow> decorator T call s = (Inl e, s2)) \<and>
           (ru = Inr () \<longrightarrow> decorator T call s = attempt call s2))) \<and>
     attempts (new_events s (snd (decorator T call s))) \<le> 2 \<and>
     resets (new_events s (snd (decorator T call s))) \<le> 1 \<and>
     refreshes (new_events s (snd (decorator T call s))) \<le> 1"
proof (intro conjI allI impI)
  fix v assume "r1 = Inr v"
  then show "decorator T call s = (Inr v, s\<lparr>net := n1, events := events s @ [Call (token s)]\<rparr>)"
    using assms by (simp add: decorator_def attempt_def)
next
  fix ru s2
  assume r1: "r1 = Inl AuthenticationError"
    and up: "update_token T
             (s\<lparr>net := n1, held_access_token := None,
                events := events s @ [Call (token s), Failed AuthenticationError, ResetToken]\<rparr>)
             = (ru, s2)"
  show "events s2 =
             events s @ [Call (token s), Failed AuthenticationError, ResetToken, UpdateToken]"
    using update_token_facts(1) [OF up] by simp
  have dec: "decorator T call s = update_then_call T call
       (s\<lparr>net := n1, held_access_token := None,
                events := events s @ [Call (token s), Failed AuthenticationError, ResetToken]\<rparr>)"
    using assms r1 by (simp add: decorator_def attempt_def reset_token_def)
  { fix e assume "ru = Inl e"
    then show "decorator T call s = (Inl e, s2)"
      using dec up by (simp add: update_then_call_def) }
  { assume "ru = Inr ()"
    then show "decorator T call s = attempt call s2"
      using dec up by (simp add: update_then_call_def) }
next
  obtain r s' where d: "decorator T call s = (r, s')" by (cases "decorator T call s")
  have "\<exists>es. events s' = events s @ es \<and> attempts es \<le> 2 \<and> resets es \<le> 1 \<and> refreshes es \<le> 1"
    using d assms
    by (auto simp: decorator_def update_then_call_def reset_token_def attempts_def resets_def
        refreshes_def
        split: if_splits prod.splits sum.splits dest!: attempt_facts(1) update_token_facts(1))
  then show "attempts (new_events s (snd (decorator T call s))) \<le> 2"
    "resets (new_events s (snd (decorator T call s))) \<le> 1"
    "refreshes (new_events s (snd (decorator T call s))) \<le> 1"
    using d by auto
qed

theorem retry_once_on_authentication_error_witness:
  "client_use_auth demo_client \<and> check_validity_token demo_client \<and>
   fst (chat_call expired_token_server (token demo_client) (net demo_client))
     = Inl AuthenticationError \<and>
   fst (decorator expired_token_server (chat_call expired_token_server) demo_client)
     = Inr ''hello'' \<and>
   events (snd (decorator expired_token_server (chat_call expired_token_server) demo_client))
     = [Call (Some ''old''), Failed AuthenticationError, ResetToken, UpdateToken,
        Call (Some ''new'')] \<and>
   attempts (new_events demo_client
      (snd (decorator expired_token_server (chat_call expired_token_server) demo_client))) \<le> 2"
proof -
  have h1: "client_use_auth demo_client" by (simp add: demo_defs run_defs)
  have h2: "check_validity_token demo_client" by (simp add: demo_defs run_defs)
  have h3: "chat_call expired_token_server (token demo_client) (net demo_client) =
      (fst (chat_call expired_token_server (token demo_client) (net demo_client)),
       snd (chat_call expired_token_server (token demo_client) (net demo_client)))"
    by simp
  note t = retry_once_on_authentication_error [where s = demo_client
      and call = "chat_call expired_token_server" and T = expired_token_server, OF h1 h2 h3]
  show ?thesis
    using t h1 h2 by (simp add: demo_defs run_defs expired_token_server_def)
qed

text \<open>
  C1 as stated fails where the refresh itself raises: the held token is rejected, the
  token endpoint answers with an error, and the call ends with that error after a single
  attempt.
\<close>

theorem refresh_failure_counterexample:
  "fst (decorator broken_auth_server (chat_call broken_auth_server) demo_client)
     = Inl (ResponseError 500) \<and>
   events (snd (decorator broken_auth_server (chat_call broken_auth_server) demo_client))
     = [Call (Some ''old''), Failed AuthenticationError, ResetToken, UpdateToken]"
  by (simp add: demo_defs run_defs broken_auth_server_def)

text \<open>How a call ends: with an attempt, whose outcome is the outcome of the call, or with
  a failed refresh, in which case no attempt has failed with anything but
  \<open>AuthenticationError\<close>.\<close>

lemma decorator_ends:
  assumes "decorator T call s = (r, s')"
  shows "(\<exists>s0 pre. events s0 = events s @ pre \<and> attempt call s0 = (r, s') \<and>
            (\<forall>e. Failed e \<in> set pre \<longrightarrow> e = AuthenticationError) \<and>
            (client_use_auth s \<and> check_validity_token s \<and>
             fst (call (token s) (net s)) \<noteq> Inl AuthenticationError \<longrightarrow> s0 = s \<and> pre = [])) \<or>
         (\<forall>e. Failed e \<in> set (new_events s s') \<longrightarrow> e = AuthenticationError)"
proof (cases "client_use_auth s")
  case False
  then have "attempt call s = (r, s')"
    using assms by (simp add: decorator_def)
  then have "events s = events s @ [] \<and> attempt call s = (r, s')" by simp
  then show ?thesis by (intro disjI1 exI [where x = s] exI [where x = "[]"]) simp
next
  case auth: True
  have tail: ?thesis
    if "update_then_call T call s1 = (r, s')" and "events s1 = events s @ pre"
      and "\<forall>e. Failed e \<in> set pre \<longrightarrow> e = AuthenticationError"
      and "\<not> (client_use_auth s \<and> check_validity_token s \<and>
             fst (call (token s) (net s)) \<noteq> Inl AuthenticationError)"
    for s1 pre
  proof -
    obtain ru s2 where up: "update_token T s1 = (ru, s2)" by (cases "update_token T s1")
    have ev: "events s2 = events s @ pre @ [UpdateToken]"
      using update_token_facts(1) [OF up] that(2) by simp
    show ?thesis
    proof (cases ru)
      case (Inl e)
      then have "s' = s2" using that(1) up by (simp add: update_then_call_def)
      then have "new_events s s' = pre @ [UpdateToken]" using ev by simp
      then show ?thesis using that(3) by auto
    next
      case (Inr u)
      then have "attempt call s2 = (r, s')" using that(1) up by (simp add: update_then_call_def)
      then have "events s2 = events s @ (pre @ [UpdateToken]) \<and> attempt call s2 = (r, s') \<and>
          (\<forall>e. Failed e \<in> set (pre @ [UpdateToken]) \<longrightarrow> e = AuthenticationError)"
        using ev that(3) by auto
      then show ?thesis using that(4)
        by (intro disjI1 exI [where x = s2] exI [where x = "pre @ [UpdateToken]"]) blast
    qed
  qed
  show ?thesis
  proof (cases "check_validity_token s")
    case False
    then have "update_then_call T call s = (r, s')"
      using assms auth by (simp add: decorator_def)
    then show ?thesis using tail [of s "[]"] False by simp
  next
    case valid: True
    obtain r1 s1 where at: "attempt call s = (r1, s1)" by (cases "attempt call s")
    note f = attempt_facts [OF at]
    show ?thesis
    proof (cases "r1 = Inl AuthenticationError")
      case True
      then have "update_then_call T call (reset_token s1) = (r, s')"
        using assms auth valid at by (simp add: decorator_def)
      moreover have "events (reset_token s1) =
          events s @ [Call (token s), Failed AuthenticationError, ResetToken]"
        using f(1) True by (simp add: reset_token_def)
      moreover have "fst (call (token s) (net s)) = Inl AuthenticationError"
        using f(5) True by simp
      ultimately show ?thesis
        using tail [of "reset_token s1" "[Call (token s), Failed AuthenticationError, ResetToken]"]
        by simp
    next
      case False
      then have "(r, s') = (r1, s1)"
        using assms auth valid at by (cases r1) (auto simp: decorator_def)
      then have "events s = events s @ [] \<and> attempt call s = (r, s')" using at by simp
      then show ?thesis by (intro disjI1 exI [where x = s] exI [where x = "[]"]) simp
    qed
  qed
qed

text \<open>
  C5. If, during a non-streaming call, an attempt raises an error other than
  \<open>AuthenticationError\<close>, that error is the outcome of the call, the failed attempt is
  the last thing the call did (nothing is retried or refreshed after it), and the token
  held afterwards is the one held when that attempt started. When this happens on the
  first attempt of a call made with a token held, the call consists of that attempt
  alone and the held token is the one held before the call.
\<close>

theorem other_errors_propagate_without_retry:
  assumes "decorator T call s = (r, s')"
    and "Failed e \<in> set (new_events s s')" and "e \<noteq> AuthenticationError"
  shows "r = Inl e \<and>
         (\<exists>s0 pre. events s0 = events s @ pre \<and> attempt call s0 = (Inl e, s') \<and>
            new_events s s' = pre @ [Call (token s0), Failed e] \<and>
            held_access_token s' = held_access_token s0) \<and>
         (client_use_auth s \<and> check_validity_token s \<and>
          fst (call (token s) (net s)) \<noteq> Inl AuthenticationError \<longrightarrow>
            new_events s s' = [Call (token s), Failed e] \<and>
            held_access_token s' = held_access_token s)"
proof -
  from decorator_ends [OF assms(1)] assms(2,3)
  obtain s0 pre where s0: "events s0 = events s @ pre" "attempt call s0 = (r, s')"
    "\<forall>e. Failed e \<in> set pre \<longrightarrow> e = AuthenticationError"
    "client_use_auth s \<and> check_validity_token s \<and>
       fst (call (token s) (net s)) \<noteq> Inl AuthenticationError \<longrightarrow> s0 = s \<and> pre = []"
    by blast
  note f = attempt_facts [OF s0(2)]
  have ev: "new_events s s' = pre @ Call (token s0) # (case r of Inl e \<Rightarrow> [Failed e] | Inr _ \<Rightarrow> [])"
    using f(1) s0(1) by simp
  have r: "r = Inl e"
    using assms(2,3) s0(3) unfolding ev by (cases r) auto
  have "events s0 = events s @ pre \<and> attempt call s0 = (Inl e, s') \<and>
            new_events s s' = pre @ [Call (token s0), Failed e] \<and>
            held_access_token s' = held_access_token s0"
    using s0(1,2) ev r f(3) by simp
  then have "\<exists>s0 pre. events s0 = events s @ pre \<and> attempt call s0 = (Inl e, s') \<and>
            new_events s s' = pre @ [Call (token s0), Failed e] \<and>
            held_access_token s' = held_access_token s0"
    by blast
  moreover have "new_events s s' = [Call (token s), Failed e] \<and>
            held_access_token s' = held_access_token s"
    if "s0 = s \<and> pre = []"
    using that ev r f(3) by simp
  ultimately show ?thesis using r s0(4) by blast
qed

theorem other_errors_propagate_without_retry_witness:
  "fst (decorator failing_server (chat_call failing_server) demo_client) = Inl (ResponseError 500) \<and>
   new_events demo_client (snd (decorator failing_server (chat_call failing_server) demo_client))
     = [Call (Some ''old''), Failed (ResponseError 500)] \<and>
   held_access_token (snd (decorator failing_server (chat_call failing_server) demo_client))
     = held_access_token demo_client"
proof -
  have h1: "decorator failing_server (chat_call failing_server) demo_client =
      (fst (decorator failing_server (chat_call failing_server) demo_client),
       snd (decorator failing_server (chat_call failing_server) demo_client))"
    by simp
  have h2: "Failed (ResponseError 500) \<in> set (new_events demo_client
      (snd (decorator failing_server (chat_call failing_server) demo_client)))"
    by (simp add: demo_defs run_defs failing_server_def)
  have h3: "ResponseError 500 \<noteq> AuthenticationError" by simp
  note t = other_errors_propagate_without_retry [where s = demo_client
      and call = "chat_call failing_server" and T = failing_server, OF h1 h2 h3]
  show ?thesis
    using t by (simp add: demo_defs run_defs failing_server_def)
qed

section \<open>Calls without authentication\<close>

lemma token_without_auth: "\<not> client_use_auth s \<Longrightarrow> token s = None"
  by (simp add: token_def client_use_auth_def)

lemma post_chat_sync_sent:
  "sent (snd (post_chat_sync T PC chat tk cid sid rid n))
     = sent n @ [post_chat_get_kwargs chat tk cid sid rid]"
  by (simp add: post_chat_sync_def client_request_def Let_def split: prod.splits option.splits)

lemma stream_chat_sync_sent:
  "sent (snd (stream_chat_sync T P chat tk cid sid rid n))
     = sent n @ [stream_chat_get_kwargs chat tk cid sid rid]"
  by (simp add: stream_chat_sync_def client_request_def Let_def
      split: prod.splits option.splits sum.splits)

text \<open>
  C7. With authentication disabled the \<^verbatim>\<open>token\<close> property is absent, whatever token the
  client holds. The dispatcher makes the attempt once, with the absent credential, and
  the client afterwards differs from the client before only by the network and the
  record of that attempt: nothing is reset or refreshed and the held token is untouched.
  For \<^verbatim>\<open>chat\<close> and for \<^verbatim>\<open>stream\<close> with a valid payload, one request goes on the wire
  and it carries no Authorization header.
\<close>

theorem no_authentication_when_disabled:
  assumes "\<not> client_use_auth s"
  shows "token s = None \<and>
    (\<exists>r n'. call None (net s) = (r, n') \<and>
       decorator T call s =
         (r, s\<lparr>net := n',
                events := events s @ Call None #
                            (case r of Inl e \<Rightarrow> [Failed e] | Inr _ \<Rightarrow> [])\<rparr>)) \<and>
    (\<forall>chat. parse_chat PO payload (model (settings s)) = Inr chat \<longrightarrow>
       sent (net (snd (client_chat T PO PC payload s)))
         = sent (net s) @ [post_chat_get_kwargs chat None None None None] \<and>
       headers (post_chat_get_kwargs chat None None None None) ''Authorization'' = None \<and>
       sent (net (snd (stream T PO P payload s)))
         = sent (net s) @ [stream_chat_get_kwargs chat None None None None] \<and>
       headers (stream_chat_get_kwargs chat None None None None) ''Authorization'' = None \<and>
       attempts (new_events s (snd (stream T PO P payload s))) = 1 \<and>
       refreshes (new_events s (snd (stream T PO P payload s))) = 0 \<and>
       held_access_token (snd (stream T PO P payload s)) = held_access_token s)"
proof (intro conjI allI impI)
  show tk: "token s = None" using assms by (rule token_without_auth)
  obtain r n' where c: "call None (net s) = (r, n')" by (cases "call None (net s)")
  then have "decorator T call s =
         (r, s\<lparr>net := n',
                events := events s @ Call None #
                            (case r of Inl e \<Rightarrow> [Failed e] | Inr _ \<Rightarrow> [])\<rparr>)"
    using assms tk by (simp add: decorator_def attempt_def)
  with c show "\<exists>r n'. call None (net s) = (r, n') \<and>
       decorator T call s =
         (r, s\<lparr>net := n',
                events := events s @ Call None #
                            (case r of Inl e \<Rightarrow> [Failed e] | Inr _ \<Rightarrow> [])\<rparr>)"
    by blast
  fix chat assume pc: "parse_chat PO payload (model (settings s)) = Inr chat"
  show "sent (net (snd (client_chat T PO PC payload s)))
         = sent (net s) @ [post_chat_get_kwargs chat None None None None]"
    using assms tk pc post_chat_sync_sent [of T PC chat None None None None "net s"]
    by (auto simp: client_chat_def decorator_def attempt_def split: prod.splits)
  show "headers (post_chat_get_kwargs chat None None None None) ''Authorization'' = None"
    by (simp add: post_chat_get_kwargs_def truthy_def)
  show "headers (stream_chat_get_kwargs chat None None None None) ''Authorization'' = None"
    by (simp add: stream_chat_get_kwargs_def truthy_def)
  have st: "stream T PO P payload s = stream_attempt T P chat s"
    using assms pc by (simp add: stream_def)
  show "sent (net (snd (stream T PO P payload s)))
         = sent (net s) @ [stream_chat_get_kwargs chat None None None None]"
    using tk stream_chat_sync_sent [of T P chat None None None None "net s"]
    by (auto simp: st stream_attempt_def split: prod.splits)
  show "attempts (new_events s (snd (stream T PO P payload s))) = 1"
    by (simp add: st stream_attempt_def attempts_def new_events_def split: prod.splits option.splits)
  show "refreshes (new_events s (snd (stream T PO P payload s))) = 0"
    by (simp add: st stream_attempt_def refreshes_def new_events_def split: prod.splits option.splits)
  show "held_access_token (snd (stream T PO P payload s)) = held_access_token s"
    by (simp add: st stream_attempt_def split: prod.splits)
qed

theorem no_authentication_when_disabled_witness:
  "\<not> client_use_auth anonymous_client \<and>
   held_access_token anonymous_client = Some \<lparr>access_token = ''old'', expires_at = 0\<rparr> \<and>
   token anonymous_client = None \<and>
   authorizations (net (snd (client_chat accepting_server demo_parse_obj demo_completion demo_chat
      anonymous_client))) = [None] \<and>
   events (snd (client_chat accepting_server demo_parse_obj demo_completion demo_chat
      anonymous_client)) = [Call None] \<and>
   authorizations (net (snd (stream streaming_server demo_parse_obj demo_parse_raw demo_chat
      anonymous_client))) = [None] \<and>
   events (snd (stream streaming_server demo_parse_obj demo_parse_raw demo_chat
      anonymous_client)) = [Call None, Yield 1, Yield 2]"
proof -
  have h: "\<not> client_use_auth anonymous_client"
    by (simp add: demo_defs run_defs anonymous_client_def)
  note t = no_authentication_when_disabled [OF h, where T = accepting_server
      and PO = demo_parse_obj and payload = demo_chat and PC = demo_completion
      and P = demo_parse_raw and call = "chat_call accepting_server"]
  show ?thesis
    using t h
    by (simp add: demo_defs run_defs stream_defs anonymous_client_def accepting_server_def
        streaming_server_def client_chat_def post_chat_get_kwargs_def
        stream_chat_get_kwargs_def)
qed

section \<open>The synchronous and the asynchronous client\<close>

lemma aupdate_token_eq: "aupdate_token T s = update_token T s"
  by (simp add: aupdate_token_def update_token_def)

lemma aupdate_then_call_eq: "aupdate_then_call T call s = update_then_call T call s"
  by (simp add: aupdate_then_call_def update_then_call_def aupdate_token_eq
      split: prod.splits sum.splits)

lemma post_chat_asyncio_eq:
  "post_chat_asyncio T PC chat tk cid sid rid = post_chat_sync T PC chat tk cid sid rid"
  by (intro ext) (simp add: post_chat_asyncio_def post_chat_sync_def)

lemma adecorator_eq: "adecorator T call s = decorator T call s"
  by (simp add: adecorator_def decorator_def aupdate_then_call_eq
      split: prod.splits sum.splits)

lemma stream_chat_asyncio_eq:
  "stream_chat_asyncio T P chat tk cid sid rid n = stream_chat_sync T P chat tk cid sid rid n"
  by (simp add: stream_chat_asyncio_def stream_chat_sync_def)

lemma astream_attempt_eq: "astream_attempt T P chat s = stream_attempt T P chat s"
  by (simp add: astream_attempt_def stream_attempt_def stream_chat_asyncio_eq)

lemma aupdate_then_stream_eq: "aupdate_then_stream T P chat s = update_then_stream T P chat s"
  by (simp add: aupdate_then_stream_def update_then_stream_def aupdate_token_eq
      astream_attempt_eq split: prod.splits sum.splits)

text \<open>
  C9. Against the same servers and from the same client state, the coroutines of the
  asynchronous client compute what the methods of the synchronous client compute: the
  same outcome and the same client afterwards, hence the same record of token reads
  (the credential of each attempt), resets, refreshes and attempts, the same requests on
  the wire and, for a stream, the same chunks. This holds for the refresh, the
  dispatcher, the two endpoints, \<^verbatim>\<open>chat\<close>/\<^verbatim>\<open>achat\<close> and \<^verbatim>\<open>stream\<close>/\<^verbatim>\<open>astream\<close>.
\<close>

theorem sync_and_async_agree:
  "aupdate_token T s = update_token T s \<and>
   adecorator T call s = decorator T call s \<and>
   post_chat_asyncio T PC chat tk cid sid rid n = post_chat_sync T PC chat tk cid sid rid n \<and>
   stream_chat_asyncio T P chat tk cid sid rid n = stream_chat_sync T P chat tk cid sid rid n \<and>
   client_achat T PO PC payload s = client_chat T PO PC payload s \<and>
   astream T PO P payload s = stream T PO P payload s"
proof (intro conjI)
  show "aupdate_token T s = update_token T s" by (rule aupdate_token_eq)
  show "adecorator T call s = decorator T call s"
    by (rule adecorator_eq)
  show "post_chat_asyncio T PC chat tk cid sid rid n = post_chat_sync T PC chat tk cid sid rid n"
    by (simp add: post_chat_asyncio_eq)
  show "stream_chat_asyncio T P chat tk cid sid rid n
      = stream_chat_sync T P chat tk cid sid rid n"
    by (rule stream_chat_asyncio_eq)
  show "client_achat T PO PC payload s = client_chat T PO PC payload s"
    by (simp add: client_achat_def client_chat_def adecorator_eq post_chat_asyncio_eq
        split: sum.splits)
  show "astream T PO P payload s = stream T PO P payload s"
    by (simp add: astream_def stream_def astream_attempt_eq aupdate_then_stream_eq
        split: prod.splits sum.splits option.splits)
qed

theorem sync_and_async_agree_witness:
  "fst (adecorator expired_token_server (chat_call expired_token_server) demo_client)
     = Inr ''hello'' \<and>
   events (snd (adecorator expired_token_server (chat_call expired_token_server) demo_client))
     = [Call (Some ''old''), Failed AuthenticationError, ResetToken, UpdateToken,
        Call (Some ''new'')]"
  using sync_and_async_agree [of expired_token_server demo_client
      "chat_call expired_token_server"]
  by (simp add: demo_defs run_defs expired_token_server_def)

section \<open>The content type of a streamed response\<close>

text \<open>
  The content type that \<^verbatim>\<open>_check_content_type\<close> compares is the value of the header up
  to the first semicolon: parameters such as a charset are not part of it, and a missing
  header reads as the empty string.
\<close>

lemma content_type_parameters:
  "content_type (r\<lparr>response_headers := [''content-type'' \<mapsto> ''text/event-stream; charset=utf-8'']\<rparr>)
     = EVENT_STREAM"
  by (simp add: content_type_def EVENT_STREAM_def)

text \<open>
  C6. When the response to a streaming request has the OK status and its content type is
  not exactly \<^verbatim>\<open>text/event-stream\<close>, the generator of the endpoint (synchronous or
  asynchronous) raises \<open>TransportError\<close> without having yielded a chunk. In the
  client's \<^verbatim>\<open>stream\<close> such a response to the first request ends the call with that
  error: the caller receives no chunk and nothing is retried.
\<close>

theorem content_type_mismatch_is_transport_error:
  assumes "send T (stream_chat_get_kwargs chat tk cid sid rid) (world n) = (Some resp, w')"
    and "status_code resp = OK" and "content_type resp \<noteq> EVENT_STREAM"
  shows "fst (stream_chat_sync T P chat tk cid sid rid n) = ([], Some TransportError) \<and>
         fst (stream_chat_asyncio T P chat tk cid sid rid n) = ([], Some TransportError) \<and>
         (tk = token s \<and> n = net s \<and> cid = None \<and> sid = None \<and> rid = None \<and>
          parse_chat PO payload (model (settings s)) = Inr chat \<and>
          (client_use_auth s \<longrightarrow> check_validity_token s) \<longrightarrow>
            fst (stream T PO P payload s) = Some TransportError \<and>
            new_events s (snd (stream T PO P payload s))
              = [Call (token s), Failed TransportError])"
proof -
  have sync: "fst (stream_chat_sync T P chat tk cid sid rid n) = ([], Some TransportError)"
    using assms
    by (simp add: stream_chat_sync_def client_request_def check_response_def
        check_content_type_def)
  then have async: "fst (stream_chat_asyncio T P chat tk cid sid rid n) = ([], Some TransportError)"
    by (simp add: stream_chat_asyncio_eq)
  have "fst (stream T PO P payload s) = Some TransportError \<and>
        new_events s (snd (stream T PO P payload s)) = [Call (token s), Failed TransportError]"
    if "tk = token s" "n = net s" "cid = None" "sid = None" "rid = None"
      "parse_chat PO payload (model (settings s)) = Inr chat"
      "client_use_auth s \<longrightarrow> check_validity_token s"
  proof -
    have "fst (stream_attempt T P chat s) = Some TransportError \<and>
        new_events s (snd (stream_attempt T P chat s)) = [Call (token s), Failed TransportError]"
      using sync that(1-5)
      by (auto simp: stream_attempt_def new_events_def split: prod.splits)
    then show ?thesis
      using that(6,7) by (auto simp: stream_def split: prod.splits option.splits)
  qed
  then show ?thesis using sync async by blast
qed

theorem content_type_mismatch_is_transport_error_witness:
  "status_code (json_reply 200 ''{}'') = OK \<and>
   content_type (json_reply 200 ''{}'') = ''application/json'' \<and>
   fst (stream_chat_sync wrong_type_server demo_parse_raw demo_chat (Some ''old'') None None None
          (net demo_client)) = ([], Some TransportError) \<and>
   fst (stream wrong_type_server demo_parse_obj demo_parse_raw demo_chat demo_client)
     = Some TransportError \<and>
   events (snd (stream wrong_type_server demo_parse_obj demo_parse_raw demo_chat demo_client))
     = [Call (Some ''old''), Failed TransportError]"
proof -
  have h1: "send wrong_type_server
      (stream_chat_get_kwargs demo_chat (Some ''old'') None None None) (world (net demo_client))
      = (Some (json_reply 200 ''{}''), 1)"
    by (simp add: demo_defs wrong_type_server_def)
  have h2: "status_code (json_reply 200 ''{}'') = OK"
    by (simp add: json_reply_def OK_def)
  have h3: "content_type (json_reply 200 ''{}'') \<noteq> EVENT_STREAM"
    by (simp add: json_reply_def content_type_def EVENT_STREAM_def)
  note t = content_type_mismatch_is_transport_error [OF h1 h2 h3, where P = demo_parse_raw
      and s = demo_client and PO = demo_parse_obj and payload = demo_chat]
  show ?thesis
    using t h2
    by (simp add: demo_defs run_defs content_type_def EVENT_STREAM_def parse_chat_def)
qed

section \<open>Streaming calls\<close>

text \<open>In a list of events whose chunks stand together, what follows a chunk is the rest of
  the chunks and then what follows them all.\<close>

lemma after_yield:
  assumes "pre0 @ map Yield cs @ fin = pre @ Yield c # post"
    and "\<forall>e \<in> set (pre0 @ fin). \<not> is_yield e"
  shows "cs \<noteq> [] \<and> (\<exists>cs'. post = map Yield cs' @ fin)"
  using assms
proof (induction pre0 arbitrary: pre)
  case Nil
  then show ?case
  proof (induction cs arbitrary: pre)
    case Nil
    then show ?case by auto
  next
    case (Cons d ds)
    show ?case
    proof (cases pre)
      case Nil
      then show ?thesis using Cons.prems by auto
    next
      case (Cons p pre')
      then have "[] @ map Yield ds @ fin = pre' @ Yield c # post" using Cons.prems by simp
      from Cons.IH [OF this] Cons.prems(2) show ?thesis by simp
    qed
  qed
next
  case (Cons x xs)
  then show ?case by (cases pre) auto
qed

text \<open>The endpoint raises \<open>AuthenticationError\<close> only on the status of the response,
  before it has read a line.\<close>

lemma stream_chat_sync_auth_error:
  assumes "stream_chat_sync T P chat tk cid sid rid n = ((cs, Some AuthenticationError), n')"
  shows "cs = []"
  using assms
  by (auto simp: stream_chat_sync_def Let_def split: prod.splits option.splits sum.splits
      dest: iter_lines_error)

lemma stream_attempt_facts:
  assumes "stream_attempt T P chat s = (t, s1)"
  shows "\<exists>cs. events s1 = events s @ Call (token s) # map Yield cs @
                  (case t of Some e \<Rightarrow> [Failed e] | None \<Rightarrow> []) \<and>
              (t = Some AuthenticationError \<longrightarrow> cs = [])"
    and "settings s1 = settings s" and "held_access_token s1 = held_access_token s"
  using assms
  by (auto simp: stream_attempt_def split: prod.splits dest: stream_chat_sync_auth_error)

lemma filter_yields [simp]:
  "filter is_call (map Yield cs) = []" "filter is_reset (map Yield cs) = []"
  "filter is_update (map Yield cs) = []"
  by (induction cs) auto

text \<open>The events of a streaming call: events that are not chunks, then the chunks, then
  events that are not chunks; if there is a chunk, what follows the chunks is the failure
  that ends the call, if it fails.\<close>

lemma stream_events:
  assumes "stream T PO P payload s = (r, s')"
  shows "\<exists>pre cs fin. events s' = events s @ pre @ map Yield cs @ fin \<and>
           (\<forall>e \<in> set (pre @ fin). \<not> is_yield e) \<and>
           (cs \<noteq> [] \<longrightarrow> fin = (case r of Some e \<Rightarrow> [Failed e] | None \<Rightarrow> [])) \<and>
           attempts (pre @ fin) \<le> 2 \<and> resets (pre @ fin) \<le> 1 \<and> refreshes (pre @ fin) \<le> 1"
    (is "\<exists>pre cs fin. ?Q pre cs fin")
proof (cases "parse_chat PO payload (model (settings s))")
  case (Inl e)
  then have "s' = s" using assms by (simp add: stream_def)
  then have "?Q [] [] []" by (simp add: attempts_def resets_def refreshes_def)
  then show ?thesis by blast
next
  case (Inr chat)
  have direct: ?thesis
    if "stream_attempt T P chat s1 = (r, s')" and "events s1 = events s @ pre0"
      and "\<forall>e \<in> set pre0. \<not> is_yield e"
      and "attempts pre0 \<le> 1" and "resets pre0 \<le> 1" and "refreshes pre0 \<le> 1"
    for s1 pre0
  proof -
    from stream_attempt_facts(1) [OF that(1)] obtain cs where
      "events s' = events s1 @ Call (token s1) # map Yield cs @
                  (case r of Some e \<Rightarrow> [Failed e] | None \<Rightarrow> [])"
      by blast
    then have "?Q (pre0 @ [Call (token s1)]) cs (case r of Some e \<Rightarrow> [Failed e] | None \<Rightarrow> [])"
      using that(2-6)
      by (auto simp: attempts_def resets_def refreshes_def split: option.splits)
    then show ?thesis by blast
  qed
  have tail: ?thesis
    if "update_then_stream T P chat s1 = (r, s')" and "events s1 = events s @ pre0"
      and "\<forall>e \<in> set pre0. \<not> is_yield e"
      and "attempts pre0 \<le> 1" and "resets pre0 \<le> 1" and "refreshes pre0 = 0"
    for s1 pre0
  proof -
    obtain ru s2 where up: "update_token T s1 = (ru, s2)" by (cases "update_token T s1")
    have ev: "events s2 = events s @ (pre0 @ [UpdateToken])"
      using update_token_facts(1) [OF up] that(2) by simp
    show ?thesis
    proof (cases ru)
      case (Inl e)
      then have "s' = s2" using that(1) up by (simp add: update_then_stream_def)
      then have "?Q (pre0 @ [UpdateToken]) [] []"
        using ev that(3-6) by (auto simp: attempts_def resets_def refreshes_def)
      then show ?thesis by blast
    next
      case (Inr u)
      then have "stream_attempt T P chat s2 = (r, s')"
        using that(1) up by (simp add: update_then_stream_def)
      then show ?thesis
        using direct [of s2 "pre0 @ [UpdateToken]"] ev that(3-6)
        by (auto simp: attempts_def resets_def refreshes_def)
    qed
  qed
  show ?thesis
  proof (cases "client_use_auth s")
    case False
    then have "stream_attempt T P chat s = (r, s')"
      using assms Inr by (simp add: stream_def)
    then show ?thesis
      using direct [of s "[]"] by (simp add: attempts_def resets_def refreshes_def)
  next
    case auth: True
    show ?thesis
    proof (cases "check_validity_token s")
      case False
      then have "update_then_stream T P chat s = (r, s')"
        using assms Inr auth by (simp add: stream_def)
      then show ?thesis
        using tail [of s "[]"] by (simp add: attempts_def resets_def refreshes_def)
    next
      case valid: True
      obtain t s1 where at: "stream_attempt T P chat s = (t, s1)"
        by (cases "stream_attempt T P chat s")
      show ?thesis
      proof (cases "t = Some AuthenticationError")
        case True
        then have "update_then_stream T P chat (reset_token s1) = (r, s')"
          using assms Inr auth valid at by (simp add: stream_def)
        moreover have "events (reset_token s1) =
            events s @ [Call (token s), Failed AuthenticationError, ResetToken]"
          using stream_attempt_facts(1) [OF at] True by (auto simp: reset_token_def)
        ultimately show ?thesis
          using tail [of "reset_token s1"
              "[Call (token s), Failed AuthenticationError, ResetToken]"]
          by (simp add: attempts_def resets_def refreshes_def)
      next
        case False
        then have "(r, s') = (t, s1)"
          using assms Inr auth valid at by (cases t) (auto simp: stream_def)
        then have "stream_attempt T P chat s = (r, s')" using at by simp
        then show ?thesis
          using direct [of s "[]"] by (simp add: attempts_def resets_def refreshes_def)
      qed
    qed
  qed
qed

text \<open>
  C4. A streaming call resets the token at most once, refreshes at most once and opens
  the stream at most twice. Once a chunk has been handed to the caller, all that follows
  is further chunks and, if the stream then fails, that failure, which ends the call and
  is what the caller gets: after a chunk there is no reset, no refresh and no second
  opening of the stream.
\<close>

theorem stream_retries_only_before_first_chunk:
  assumes "stream T PO P payload s = (r, s')"
  shows "events s' = events s @ new_events s s' \<and>
         attempts (new_events s s') \<le> 2 \<and>
         resets (new_events s s') \<le> 1 \<and>
         refreshes (new_events s s') \<le> 1 \<and>
         (\<forall>pre c post. new_events s s' = pre @ Yield c # post \<longrightarrow>
            (\<exists>cs. post = map Yield cs @ (case r of Some e \<Rightarrow> [Failed e] | None \<Rightarrow> [])))"
proof -
  from stream_events [OF assms] obtain pre0 cs fin where
    ev: "events s' = events s @ pre0 @ map Yield cs @ fin"
    and ny: "\<forall>e \<in> set (pre0 @ fin). \<not> is_yield e"
    and fin: "cs \<noteq> [] \<longrightarrow> fin = (case r of Some e \<Rightarrow> [Failed e] | None \<Rightarrow> [])"
    and n: "attempts (pre0 @ fin) \<le> 2" "resets (pre0 @ fin) \<le> 1" "refreshes (pre0 @ fin) \<le> 1"
    by blast
  have new: "new_events s s' = pre0 @ map Yield cs @ fin"
    using ev by simp
  have e: "events s' = events s @ new_events s s'"
    using ev new by simp
  have a: "attempts (new_events s s') \<le> 2"
    using n(1) by (simp add: new attempts_def)
  have b: "resets (new_events s s') \<le> 1"
    using n(2) by (simp add: new resets_def)
  have c: "refreshes (new_events s s') \<le> 1"
    using n(3) by (simp add: new refreshes_def)
  have d: "\<exists>cs'. post = map Yield cs' @ (case r of Some e \<Rightarrow> [Failed e] | None \<Rightarrow> [])"
    if "new_events s s' = pre @ Yield c # post" for pre c post
  proof -
    from that new have "pre0 @ map Yield cs @ fin = pre @ Yield c # post" by simp
    from after_yield [OF this ny] have "cs \<noteq> []" and "\<exists>cs'. post = map Yield cs' @ fin"
      by simp_all
    with fin show ?thesis by simp
  qed
  from e a b c d show ?thesis by blast
qed

theorem stream_retries_only_before_first_chunk_witness:
  "fst (stream expired_streaming_server demo_parse_obj demo_parse_raw demo_chat demo_client) = None \<and>
   events (snd (stream expired_streaming_server demo_parse_obj demo_parse_raw demo_chat demo_client))
     = [Call (Some ''old''), Failed AuthenticationError, ResetToken, UpdateToken,
        Call (Some ''new''), Yield 1, Yield 2] \<and>
   fst (stream breaking_server demo_parse_obj demo_parse_raw demo_chat demo_client)
     = Some TransportError \<and>
   events (snd (stream breaking_server demo_parse_obj demo_parse_raw demo_chat demo_client))
     = [Call (Some ''old''), Yield 1, Failed TransportError]"
proof -
  have h1: "stream expired_streaming_server demo_parse_obj demo_parse_raw demo_chat demo_client =
      (fst (stream expired_streaming_server demo_parse_obj demo_parse_raw demo_chat demo_client),
       snd (stream expired_streaming_server demo_parse_obj demo_parse_raw demo_chat demo_client))"
    by simp
  have h2: "stream breaking_server demo_parse_obj demo_parse_raw demo_chat demo_client =
      (fst (stream breaking_server demo_parse_obj demo_parse_raw demo_chat demo_client),
       snd (stream breaking_server demo_parse_obj demo_parse_raw demo_chat demo_client))"
    by simp
  note t = stream_retries_only_before_first_chunk [OF h1]
    stream_retries_only_before_first_chunk [OF h2]
  show ?thesis
    using t
    by (simp add: demo_defs run_defs stream_defs expired_streaming_server_def
        breaking_server_def)
qed

section \<open>Discarding the token\<close>









end
